theory Spec2Isabelle
  imports Main "HOL-Library.Word"
begin

section \<open>JavaScript values seen by the gateway (src/core/api.js)\<close>

text \<open>
  A JavaScript string is a sequence of UTF-16 code units and \<open>.length\<close> counts them.
  Query values are percent-decoded text and may hold any code unit; header values and
  \<open>req.ip\<close> are Latin-1 text as Node's HTTP parser delivers them, one byte per code unit,
  and are kept as \<open>string\<close>.
\<close>

type_synonym jsstring = "16 word list"

type_synonym buffer = "8 word list"

definition ascii :: "string \<Rightarrow> jsstring" where
  "ascii s = map (\<lambda>c. of_nat (of_char c)) s"

datatype error = Error | TypeError | RangeError | SyntaxError

text \<open>
  \<open>req.query.k\<close> as Express' query parser builds it: a string, an array (a repeated
  key, \<open>k[]=\<close>) or a nested object with its own keys (\<open>k[a]=\<close>); an absent key
  reads \<open>undefined\<close>, here \<open>None\<close>. Express parses with \<open>allowPrototypes\<close>, so a
  key of a nested object may be the name of a method of \<open>Object.prototype\<close>
  (\<open>k[toString]=\<close>).
\<close>

datatype qval = QStr jsstring | QArr "qval list" | QObj "(jsstring \<times> qval) list"

text \<open>\<open>Array.prototype.join\<close>.\<close>

fun join :: "jsstring \<Rightarrow> jsstring list \<Rightarrow> jsstring" where
  "join sep [] = []"
| "join sep [x] = x"
| "join sep (x # y # ys) = x @ sep @ join sep (y # ys)"

text \<open>The conversions of an array's elements, left to right: the first that throws ends it.\<close>

fun all_converted :: "(error + jsstring) list \<Rightarrow> error + jsstring list" where
  "all_converted [] = Inr []"
| "all_converted (Inl e # rs) = Inl e"
| "all_converted (Inr s # rs) =
     (case all_converted rs of Inl e \<Rightarrow> Inl e | Inr ss \<Rightarrow> Inr (s # ss))"

text \<open>
  \<open>String(v)\<close> on a query value: a string is itself; an array is its elements,
  converted and joined by commas; a plain object is \<open>[object Object]\<close>, unless it has
  a key \<open>toString\<close> of its own: that value is no function, \<open>valueOf\<close> gives no
  primitive either, and the conversion throws a TypeError. \<open>undefined\<close> is the nine
  characters \<open>undefined\<close>.
\<close>

fun qval_String :: "qval \<Rightarrow> error + jsstring" where
  "qval_String (QStr s) = Inr s"
| "qval_String (QArr vs) =
     (case all_converted (map qval_String vs) of
        Inl e \<Rightarrow> Inl e
      | Inr ss \<Rightarrow> Inr (join (ascii '','') ss))"
| "qval_String (QObj kvs) =
     (if ascii ''toString'' \<in> set (map fst kvs) then Inl TypeError
      else Inr (ascii ''[object Object]''))"

definition js_String :: "qval option \<Rightarrow> error + jsstring" where
  "js_String v = (case v of None \<Rightarrow> Inr (ascii ''undefined'') | Some q \<Rightarrow> qval_String q)"

text \<open>Truthiness: of a string (non-empty), and of a query value (arrays and objects are truthy).\<close>

definition truthy_str :: "jsstring \<Rightarrow> bool" where
  "truthy_str s = (s \<noteq> [])"

definition truthy :: "qval option \<Rightarrow> bool" where
  "truthy v = (case v of None \<Rightarrow> False | Some (QStr s) \<Rightarrow> s \<noteq> [] | Some _ \<Rightarrow> True)"

text \<open>\<open>String(req.header(name))\<close>: an absent header reads \<open>undefined\<close>.\<close>

definition header_String :: "string option \<Rightarrow> string" where
  "header_String h = (case h of None \<Rightarrow> ''undefined'' | Some s \<Rightarrow> s)"

text \<open>\<open>String.prototype.endsWith\<close>.\<close>

definition endsWith :: "string \<Rightarrow> string \<Rightarrow> bool" where
  "endsWith s t = (length t \<le> length s \<and> drop (length s - length t) s = t)"

section \<open>Requests, responses, collaborators\<close>

text \<open>
  The part of an Express request the handlers read. \<open>ip\<close> is \<open>req.ip\<close>, which is
  \<open>undefined\<close> (\<open>None\<close>) once the socket is gone; \<open>headers\<close> is the header lookup by
  lower-case name; \<open>query\<close> is \<open>req.query\<close>.
  The last four fields are what \<open>express.json\<close> sees of the body: whether the request
  has one (a Content-Length or Transfer-Encoding header), whether its Content-Type is of
  type application/json, whether reading it fails before the \<open>verify\<close> callback runs
  (unsupported charset or encoding, more than the parser's own 100kb limit, an aborted
  upload), and the bytes of the body as the parser hands them to \<open>verify\<close>.
\<close>

record request =
  ip :: "string option"
  headers :: "string \<Rightarrow> string option"
  query :: "string \<Rightarrow> qval option"
  has_body :: bool
  json_typed :: bool
  read_fails :: bool
  raw_body :: buffer

text \<open>
  What \<open>verifyStream\<close> and \<open>getInternalStream\<close> return when they return an object:
  the two properties the gateway reads (\<open>service\<close>, \<open>status\<close>; \<open>None\<close> is an absent
  property), the \<open>headers\<close> and \<open>type\<close> properties it writes, and the remaining
  properties, which it only passes on.
\<close>

record stream_info =
  service :: "jsstring option"
  status :: "int option"
  info_headers :: "(string \<Rightarrow> string option) option"
  info_type :: "string option"
  params :: "(string \<times> jsstring) list"

text \<open>
  JSON values: a parsed request body, and the body of a \<open>res.json(...)\<close> response.
  Numbers are kept as integers; nothing below computes with them.
\<close>

datatype json =
    JNull
  | JBool bool
  | JNum int
  | JStr jsstring
  | JArr "json list"
  | JObj "(jsstring \<times> json) list"

text \<open>
  The body of a response: none; the JSON value given to \<open>res.json\<close>; or the status
  text that \<open>res.sendStatus\<close> sends for its code (the reason phrase registered for
  the code, or the code in decimal).
\<close>

datatype body = NoBody | JsonBody json | StatusText int

text \<open>
  What a handler has done with \<open>res\<close> when it returns: it gave Express a status code
  and a body to send; it destroyed the connection with nothing sent
  (\<open>res.destroy()\<close>); it handed the response to the stream-proxy collaborator, which
  returned; it redirected; or an exception left it uncaught (Express' default error
  handler then answers 500).
  How the HTTP layer then frames a response (no body on the wire for a HEAD request or
  a bodiless status code, 304 for a conditional request that matches) is below this
  model.
\<close>

datatype reply =
    Response int body
  | Destroyed
  | Proxied stream_info
  | Redirect string
  | Uncaught error

datatype collaborator = VerifyStream | Stream | GetInternalStream | JSONparse | BodyParse | Match

text \<open>
  What a call of \<open>stream\<close> that returns has started: proxying that goes through, or
  proxying that fails after the call has returned (an asynchronous \<open>stream\<close> returns
  a promise, which then rejects).
\<close>

datatype proxying = Completes | Fails_later error

text \<open>
  What happened while a handler ran: a collaborator was called; it threw out of the
  call; the proxying it started failed after the call had returned.
\<close>

datatype event = Called collaborator | Raised collaborator | Raised_later collaborator

text \<open>
  The modules imported by api.js whose code is outside this file, as parameters. A call
  made inside a \<open>try\<close> either throws (\<open>Inl\<close>) or returns (\<open>Inr\<close>);
  \<open>verifyStream\<close> and \<open>getInternalStream\<close> may return \<open>null\<close>/\<open>undefined\<close>
  (\<open>None\<close>). \<open>JSON_parse\<close> is \<open>JSON.parse\<close> on the bytes (\<open>None\<close>: a SyntaxError).
  \<open>body_parse\<close> is what \<open>express.json\<close> itself does with a body that passed
  \<open>verify\<close>: decoding in the request's charset, its strict-mode check of the first
  character, and the parse. \<open>extract_url\<close> is \<open>extract\<close> and \<open>match_service\<close> is
  \<open>match\<close>, a result being its \<open>status\<close> and \<open>body\<close>; \<open>createResponse\<close>
  is given the localised text of its \<open>t\<close> argument.
\<close>

record collaborators =
  verifyStream :: "jsstring \<Rightarrow> jsstring \<Rightarrow> jsstring \<Rightarrow> jsstring \<Rightarrow> jsstring
                     \<Rightarrow> error + stream_info option"
  getInternalStream :: "qval option \<Rightarrow> error + stream_info option"
  stream :: "stream_info \<Rightarrow> error + proxying"
  JSON_parse :: "buffer \<Rightarrow> json option"
  body_parse :: "request \<Rightarrow> buffer \<Rightarrow> error + json"
  getIP :: "request \<Rightarrow> string"
  generateHmac :: "string \<Rightarrow> string \<Rightarrow> string"
  languageCode :: "request \<Rightarrow> jsstring"
  loc :: "jsstring \<Rightarrow> string \<Rightarrow> jsstring"
  createResponse :: "string \<Rightarrow> jsstring \<Rightarrow> int \<times> json"
  verifyRequest :: "json \<Rightarrow> json option"
  extract_url :: "json option \<Rightarrow> (jsstring \<times> json) option"
  match_service :: "jsstring \<Rightarrow> json \<Rightarrow> jsstring \<Rightarrow> json \<Rightarrow> error + int \<times> json"

text \<open>\<open>code |= 0\<close>: the code as a signed 32-bit integer.\<close>

definition toInt32 :: "int \<Rightarrow> int" where
  "toInt32 n = (n + 2147483648) mod 4294967296 - 2147483648"

text \<open>
  Express' \<open>res.sendStatus(code)\<close>: sets the status code and sends the status text of
  that code as the body. When the head is written Node takes the code as a 32-bit
  integer (\<open>undefined\<close> becomes 0) and refuses one outside 100..999 with a RangeError
  thrown from inside the call.
\<close>

definition sendStatus :: "int option \<Rightarrow> error + reply" where
  "sendStatus code =
     (case code of
        None \<Rightarrow> Inl RangeError
      | Some n \<Rightarrow> if 100 \<le> toInt32 n \<and> toInt32 n \<le> 999
                  then Inr (Response (toInt32 n) (StatusText n))
                  else Inl RangeError)"

text \<open>\<open>res.status(code).json(value)\<close>, with the same check of the code.\<close>

definition status_json :: "int \<Rightarrow> json \<Rightarrow> error + reply" where
  "status_json code v =
     (if 100 \<le> toInt32 code \<and> toInt32 code \<le> 999
      then Inr (Response (toInt32 code) (JsonBody v)) else Inl RangeError)"

text \<open>\<open>try { ... } catch { return res.destroy(); }\<close>\<close>

definition catch_destroy :: "(error + reply) \<times> event list \<Rightarrow> reply \<times> event list" where
  "catch_destroy r = (case r of (Inl e, tr) \<Rightarrow> (Destroyed, tr) | (Inr x, tr) \<Rightarrow> (x, tr))"

text \<open>A call outside any \<open>try\<close>: an exception leaves the handler.\<close>

definition uncaught :: "(error + reply) \<times> event list \<Rightarrow> reply \<times> event list" where
  "uncaught r = (case r of (Inl e, tr) \<Rightarrow> (Uncaught e, tr) | (Inr x, tr) \<Rightarrow> (x, tr))"

section \<open>GET /api/stream\<close>

text \<open>\<open>!streamInfo?.service\<close> is false exactly when the result is an object whose
  \<open>service\<close> is a non-empty string.\<close>

definition has_service :: "stream_info option \<Rightarrow> bool" where
  "has_service streamInfo =
     (case streamInfo of
        None \<Rightarrow> False
      | Some info \<Rightarrow> (case service info of None \<Rightarrow> False | Some s \<Rightarrow> truthy_str s))"

text \<open>The body of the \<open>try\<close> block of the handler (api.js, lines 156-160).\<close>

definition stream_try :: "collaborators \<Rightarrow> jsstring \<Rightarrow> jsstring \<Rightarrow> jsstring \<Rightarrow> jsstring
    \<Rightarrow> jsstring \<Rightarrow> (error + reply) \<times> event list" where
  "stream_try env id' sig exp sec iv =
     (case verifyStream env id' sig exp sec iv of
        Inl e \<Rightarrow> (Inl e, [Called VerifyStream, Raised VerifyStream])
      | Inr streamInfo \<Rightarrow>
          if \<not> has_service streamInfo then
            (case streamInfo of
               None \<Rightarrow> (Inl TypeError, [Called VerifyStream])
             | Some info \<Rightarrow> (sendStatus (status info), [Called VerifyStream]))
          else
            (case streamInfo of
               None \<Rightarrow> (Inl TypeError, [Called VerifyStream])
             | Some info \<Rightarrow>
                 (case stream env info of
                    Inl e \<Rightarrow> (Inl e, [Called VerifyStream, Called Stream, Raised Stream])
                  | Inr Completes \<Rightarrow>
                      (Inr (Proxied info), [Called VerifyStream, Called Stream])
                  | Inr (Fails_later e) \<Rightarrow>
                      (Inr (Proxied info),
                       [Called VerifyStream, Called Stream, Raised_later Stream]))))"

definition checkQueries :: "jsstring \<Rightarrow> jsstring \<Rightarrow> jsstring \<Rightarrow> jsstring \<Rightarrow> jsstring \<Rightarrow> bool" where
  "checkQueries id' exp sig sec iv =
     (truthy_str id' \<and> truthy_str exp \<and> truthy_str sig \<and> truthy_str sec \<and> truthy_str iv)"

definition checkBaseLength :: "jsstring \<Rightarrow> jsstring \<Rightarrow> bool" where
  "checkBaseLength id' exp = (length id' = 21 \<and> length exp = 13)"

definition checkSafeLength :: "jsstring \<Rightarrow> jsstring \<Rightarrow> jsstring \<Rightarrow> bool" where
  "checkSafeLength sig sec iv = (length sig = 43 \<and> length sec = 43 \<and> length iv = 22)"

text \<open>The handler from the five texts on (api.js, lines 144-165).\<close>

definition stream_checked :: "collaborators \<Rightarrow> request \<Rightarrow> jsstring \<Rightarrow> jsstring \<Rightarrow> jsstring
    \<Rightarrow> jsstring \<Rightarrow> jsstring \<Rightarrow> reply \<times> event list" where
  "stream_checked env req id' exp sig sec iv =
     (if checkQueries id' exp sig sec iv \<and> checkBaseLength id' exp \<and> checkSafeLength sig sec iv
      then
        if truthy (query req ''p'') then
          uncaught (status_json 200 (JObj [(ascii ''status'', JStr (ascii ''continue''))]), [])
        else catch_destroy (stream_try env id' sig exp sec iv)
      else uncaught (sendStatus (Some 400), []))"

text \<open>
  The handler of \<open>app.get('/api/stream')\<close> (api.js, lines 137-166). The five
  conversions \<open>String(req.query.k)\<close> of lines 138-142 stand before the \<open>try\<close>: one that
  throws leaves the handler.
\<close>

definition api_stream :: "collaborators \<Rightarrow> request \<Rightarrow> reply \<times> event list" where
  "api_stream env req =
     (case js_String (query req ''id'') of
        Inl e \<Rightarrow> (Uncaught e, [])
      | Inr id' \<Rightarrow>
     (case js_String (query req ''exp'') of
        Inl e \<Rightarrow> (Uncaught e, [])
      | Inr exp \<Rightarrow>
     (case js_String (query req ''sig'') of
        Inl e \<Rightarrow> (Uncaught e, [])
      | Inr sig \<Rightarrow>
     (case js_String (query req ''sec'') of
        Inl e \<Rightarrow> (Uncaught e, [])
      | Inr sec \<Rightarrow>
     (case js_String (query req ''iv'') of
        Inl e \<Rightarrow> (Uncaught e, [])
      | Inr iv \<Rightarrow> stream_checked env req id' exp sig sec iv)))))"

section \<open>GET /api/istream\<close>

text \<open>The body of the \<open>try\<close> block of \<open>app.get('/api/istream')\<close> (api.js, lines 170-179).
  Reading \<open>req.ip.endsWith\<close> of an undefined \<open>req.ip\<close> is a TypeError, and
  \<open>String(req.query.id)\<close> may throw one. In \<open>{ type: 'internal', ...streamInfo }\<close> a
  \<open>type\<close> of the descriptor's own wins.\<close>

definition istream_try :: "collaborators \<Rightarrow> request \<Rightarrow> (error + reply) \<times> event list" where
  "istream_try env req =
     (case ip req of
        None \<Rightarrow> (Inl TypeError, [])
      | Some addr \<Rightarrow>
          if \<not> endsWith addr ''127.0.0.1'' then (sendStatus (Some 403), [])
          else
            (case js_String (query req ''id'') of
               Inl e \<Rightarrow> (Inl e, [])
             | Inr id' \<Rightarrow>
                 if length id' \<noteq> 21 then (sendStatus (Some 400), [])
                 else
                   (case getInternalStream env (query req ''id'') of
                      Inl e \<Rightarrow> (Inl e, [Called GetInternalStream, Raised GetInternalStream])
                    | Inr None \<Rightarrow> (sendStatus (Some 404), [Called GetInternalStream])
                    | Inr (Some streamInfo) \<Rightarrow>
                        (let withHeaders = streamInfo\<lparr>info_headers := Some (headers req)\<rparr>;
                             arg = withHeaders\<lparr>info_type :=
                                     (case info_type withHeaders of
                                        None \<Rightarrow> Some ''internal'' | Some t \<Rightarrow> Some t)\<rparr>
                         in case stream env arg of
                              Inl e \<Rightarrow>
                                (Inl e, [Called GetInternalStream, Called Stream, Raised Stream])
                            | Inr Completes \<Rightarrow>
                                (Inr (Proxied arg), [Called GetInternalStream, Called Stream])
                            | Inr (Fails_later e) \<Rightarrow>
                                (Inr (Proxied arg),
                                 [Called GetInternalStream, Called Stream, Raised_later Stream])))))"

definition api_istream :: "collaborators \<Rightarrow> request \<Rightarrow> reply \<times> event list" where
  "api_istream env req = catch_destroy (istream_try env req)"

section \<open>POST /api/json\<close>

text \<open>The \<open>verify\<close> callback given to \<open>express.json\<close> (api.js, lines 69-77).\<close>

definition verify :: "collaborators \<Rightarrow> request \<Rightarrow> buffer \<Rightarrow> (error + unit) \<times> event list" where
  "verify env req buf =
     (let acceptHeader = (header_String (headers req ''accept'') = ''application/json'')
      in if acceptHeader then
           if length buf > 720 then (Inl Error, [])
           else (case JSON_parse env buf of
                   None \<Rightarrow> (Inl SyntaxError, [Called JSONparse, Raised JSONparse])
                 | Some v \<Rightarrow> (Inr (), [Called JSONparse]))
         else (Inl Error, []))"

text \<open>
  \<open>express.json({verify})\<close>. The middleware passes a request on untouched, with
  \<open>req.body = {}\<close>, when it has no body or its Content-Type is not of type
  application/json. Otherwise it reads the body, and an error of the reader, of
  \<open>verify\<close> or of its own parse goes to the error-handling middleware.
\<close>

definition express_json :: "collaborators \<Rightarrow> request \<Rightarrow> (error + json) \<times> event list" where
  "express_json env req =
     (if \<not> has_body req \<or> \<not> json_typed req then (Inr (JObj []), [])
      else if read_fails req then (Inl Error, [])
      else (case verify env req (raw_body req) of
              (Inl e, tr) \<Rightarrow> (Inl e, tr)
            | (Inr u, tr) \<Rightarrow>
                (case body_parse env req (raw_body req) of
                   Inl e \<Rightarrow> (Inl e, tr @ [Called BodyParse, Raised BodyParse])
                 | Inr v \<Rightarrow> (Inr v, tr @ [Called BodyParse]))))"

text \<open>
  The error-handling middleware of \<open>/api/json\<close> (api.js, lines 81-94); \<open>None\<close> is
  \<open>next()\<close>. Express calls a four-argument middleware only with an error.
\<close>

definition json_error_handler :: "bool \<Rightarrow> request \<Rightarrow> (error + reply) option" where
  "json_error_handler err req =
     (let errorText = ''invalid json body'';
          acceptHeader = (header_String (headers req ''accept'') \<noteq> ''application/json'')
      in if err \<or> acceptHeader then
           Some (status_json 400
             (JObj [(ascii ''status'', JStr (ascii ''error'')),
                    (ascii ''text'', JStr (ascii (if acceptHeader then ''invalid accept header''
                                             else errorText)))]))
         else None)"

text \<open>\<open>/^application\/json(; charset=utf-8)?$/.test(s)\<close>\<close>

definition acceptRegex_test :: "string \<Rightarrow> bool" where
  "acceptRegex_test s = (s = ''application/json'' \<or> s = ''application/json; charset=utf-8'')"

text \<open>Property reads and writes on a parsed body; reading a property of \<open>null\<close> throws.\<close>

definition get_prop :: "json \<Rightarrow> string \<Rightarrow> error + json option" where
  "get_prop v k =
     (case v of JNull \<Rightarrow> Inl TypeError | JObj kvs \<Rightarrow> Inr (map_of kvs (ascii k)) | _ \<Rightarrow> Inr None)"

definition set_prop :: "json \<Rightarrow> string \<Rightarrow> json \<Rightarrow> json" where
  "set_prop v k x =
     (case v of
        JObj kvs \<Rightarrow> JObj ((ascii k, x) # filter (\<lambda>kv. fst kv \<noteq> ascii k) kvs)
      | _ \<Rightarrow> v)"

definition truthy_json :: "json option \<Rightarrow> bool" where
  "truthy_json v =
     (case v of
        None \<Rightarrow> False
      | Some JNull \<Rightarrow> False
      | Some (JBool b) \<Rightarrow> b
      | Some (JNum n) \<Rightarrow> n \<noteq> 0
      | Some (JStr s) \<Rightarrow> s \<noteq> []
      | Some _ \<Rightarrow> True)"

text \<open>\<open>fail(t)\<close> of the route handler (api.js, lines 102-105).\<close>

definition fail :: "collaborators \<Rightarrow> jsstring \<Rightarrow> string \<Rightarrow> error + reply" where
  "fail env lang t = (case createResponse env ''error'' (loc env lang t) of (st, b) \<Rightarrow> status_json st b)"

text \<open>The handler of \<open>app.post('/api/json')\<close> (api.js, lines 98-135), given \<open>req.body\<close>.\<close>

definition post_json :: "collaborators \<Rightarrow> request \<Rightarrow> json \<Rightarrow> reply \<times> event list" where
  "post_json env req request =
     (let lang = languageCode env req
      in if \<not> acceptRegex_test (header_String (headers req ''content-type'')) then
           uncaught (fail env lang ''ErrorInvalidContentType'', [])
         else
           (case get_prop request ''url'' of
              Inl e \<Rightarrow> (Uncaught e, [])
            | Inr url \<Rightarrow>
                if \<not> truthy_json url then uncaught (fail env lang ''ErrorNoLink'', [])
                else
                  (let dubLang = (case get_prop request ''dubLang'' of Inl e \<Rightarrow> None | Inr d \<Rightarrow> d);
                       request' = set_prop request ''dubLang''
                                    (if truthy_json dubLang then JStr lang else JBool False)
                   in case verifyRequest env request' of
                        None \<Rightarrow> uncaught (fail env lang ''ErrorCantProcess'', [])
                      | Some normalizedRequest \<Rightarrow>
                          (case extract_url env
                                  (case get_prop normalizedRequest ''url'' of
                                     Inl e \<Rightarrow> None | Inr u \<Rightarrow> u) of
                             None \<Rightarrow> uncaught (fail env lang ''ErrorUnsupported'', [])
                           | Some (host, patternMatch) \<Rightarrow>
                               (case match_service env host patternMatch lang normalizedRequest of
                                  Inl e \<Rightarrow>
                                    uncaught (fail env lang ''ErrorSomethingWentWrong'',
                                              [Called Match, Raised Match])
                                | Inr (st, b) \<Rightarrow>
                                    (case status_json st b of
                                       Inl e \<Rightarrow>
                                         uncaught (fail env lang ''ErrorSomethingWentWrong'',
                                                   [Called Match])
                                     | Inr r \<Rightarrow> (r, [Called Match])))))))"

text \<open>
  The three middlewares of \<open>/api/json\<close> in the order they are mounted: the body
  parser, the error handler (run only when the parser raised an error), the route
  handler.
\<close>

definition api_json :: "collaborators \<Rightarrow> request \<Rightarrow> reply \<times> event list" where
  "api_json env req =
     (case express_json env req of
        (Inl e, tr) \<Rightarrow>
          (case json_error_handler True req of
             Some r \<Rightarrow> uncaught (r, tr)
           | None \<Rightarrow> (case post_json env req (JObj []) of (r, tr') \<Rightarrow> (r, tr @ tr')))
      | (Inr v, tr) \<Rightarrow> (case post_json env req v of (r, tr') \<Rightarrow> (r, tr @ tr')))"

section \<open>Rate limiting\<close>



















section \<open>What a reply carries\<close>

definition reply_status :: "reply \<Rightarrow> int option" where
  "reply_status r = (case r of Response code b \<Rightarrow> Some code | _ \<Rightarrow> None)"

definition reply_body :: "reply \<Rightarrow> body" where
  "reply_body r = (case r of Response code b \<Rightarrow> b | _ \<Rightarrow> NoBody)"

section \<open>Runs of requests through a limiter\<close>




section \<open>Sample requests and collaborators\<close>

definition tok :: "nat \<Rightarrow> jsstring" where
  "tok n = replicate n 97"

definition token_query :: "string \<Rightarrow> qval option" where
  "token_query =
     [''id'' \<mapsto> QStr (tok 21), ''exp'' \<mapsto> QStr (tok 13), ''sig'' \<mapsto> QStr (tok 43),
      ''sec'' \<mapsto> QStr (tok 43), ''iv'' \<mapsto> QStr (tok 22)]"

definition token_request :: request where
  "token_request =
     \<lparr>ip = Some ''203.0.113.7'', headers = Map.empty, query = token_query,
      has_body = False, json_typed = False, read_fails = False, raw_body = []\<rparr>"

definition no_iv_request :: request where
  "no_iv_request = token_request\<lparr>query := token_query(''iv'' := None)\<rparr>"

text \<open>The query \<open>id[toString]=x\<close>, the other four fields well-formed.\<close>

definition shadowed_request :: request where
  "shadowed_request =
     token_request\<lparr>query := token_query(''id'' \<mapsto> QObj [(ascii ''toString'', QStr (ascii ''x''))])\<rparr>"

definition probe_request :: request where
  "probe_request = token_request\<lparr>query := token_query(''p'' \<mapsto> QStr (ascii ''1''))\<rparr>"

definition youtube_descriptor :: stream_info where
  "youtube_descriptor =
     \<lparr>service = Some (ascii ''youtube''), status = None, info_headers = None,
      info_type = None, params = []\<rparr>"

definition unauthorized :: stream_info where
  "unauthorized =
     \<lparr>service = None, status = Some 401, info_headers = None, info_type = None, params = []\<rparr>"

text \<open>Collaborators that accept every token and know every identifier.\<close>

definition accepting :: collaborators where
  "accepting =
     \<lparr>verifyStream = (\<lambda>i s e k v. Inr (Some youtube_descriptor)),
      getInternalStream = (\<lambda>i. Inr (Some youtube_descriptor)),
      stream = (\<lambda>info. Inr Completes),
      JSON_parse = (\<lambda>buf. Some (JObj [])),
      body_parse = (\<lambda>req buf. Inr (JObj [])),
      getIP = (\<lambda>req. header_String (ip req)),
      generateHmac = (\<lambda>text salt. salt @ text),
      languageCode = (\<lambda>req. ascii ''en''),
      loc = (\<lambda>lang t. ascii t),
      createResponse = (\<lambda>kind t. (400, JObj [(ascii ''status'', JStr (ascii kind)),
                                                (ascii ''text'', JStr t)])),
      verifyRequest = (\<lambda>request. Some request),
      extract_url = (\<lambda>url. None),
      match_service = (\<lambda>host pattern lang request. Inl Error)\<rparr>"

definition rejecting :: collaborators where
  "rejecting = accepting\<lparr>verifyStream := (\<lambda>i s e k v. Inr (Some unauthorized))\<rparr>"

definition verify_throws :: collaborators where
  "verify_throws = accepting\<lparr>verifyStream := (\<lambda>i s e k v. Inl Error)\<rparr>"

definition stream_throws :: collaborators where
  "stream_throws = accepting\<lparr>stream := (\<lambda>info. Inl Error)\<rparr>"

text \<open>A \<open>stream\<close> that returns from the call and fails while proxying.\<close>

definition stream_fails_later :: collaborators where
  "stream_fails_later = accepting\<lparr>stream := (\<lambda>info. Inr (Fails_later Error))\<rparr>"

text \<open>Requests to the internal route: from the loopback address without an \<open>id\<close>
  and with \<open>id[toString]=x\<close>, from a remote address, and from an address outside the
  host that ends in the characters of the loopback address.\<close>

definition loopback_request :: request where
  "loopback_request = token_request\<lparr>ip := Some ''::ffff:127.0.0.1'', query := Map.empty\<rparr>"

definition shadowed_loopback_request :: request where
  "shadowed_loopback_request =
     token_request\<lparr>ip := Some ''127.0.0.1'',
                     query := [''id'' \<mapsto> QObj [(ascii ''toString'', QStr (ascii ''x''))]]\<rparr>"

definition remote_request :: request where
  "remote_request = token_request\<lparr>ip := Some ''203.0.113.7''\<rparr>"

definition crafted_request :: request where
  "crafted_request = token_request\<lparr>ip := Some ''2001:db8::127.0.0.1''\<rparr>"

text \<open>Requests to POST /api/json: a body \<open>{}\<close> sent with a charset on the Accept
  header, and without an Accept header; 800 bytes sent as text/plain; a body \<open>{}\<close>
  and 800 bytes sent as JSON.\<close>

definition charset_request :: request where
  "charset_request =
     \<lparr>ip = Some ''203.0.113.7'',
      headers = [''accept'' \<mapsto> ''application/json; charset=utf-8'',
                 ''content-type'' \<mapsto> ''application/json''],
      query = Map.empty, has_body = True, json_typed = True, read_fails = False,
      raw_body = [123, 125]\<rparr>"

definition no_accept_request :: request where
  "no_accept_request = charset_request\<lparr>headers := [''content-type'' \<mapsto> ''application/json'']\<rparr>"

definition plain_request :: request where
  "plain_request =
     \<lparr>ip = Some ''203.0.113.7'',
      headers = [''accept'' \<mapsto> ''application/json'', ''content-type'' \<mapsto> ''text/plain''],
      query = Map.empty, has_body = True, json_typed = False, read_fails = False,
      raw_body = replicate 800 97\<rparr>"

definition json_request :: request where
  "json_request =
     \<lparr>ip = Some ''203.0.113.7'',
      headers = [''accept'' \<mapsto> ''application/json'', ''content-type'' \<mapsto> ''application/json''],
      query = Map.empty, has_body = True, json_typed = True, read_fails = False,
      raw_body = [123, 125]\<rparr>"

definition oversized_request :: request where
  "oversized_request =
     \<lparr>ip = Some ''203.0.113.7'',
      headers = [''accept'' \<mapsto> ''application/json'', ''content-type'' \<mapsto> ''application/json''],
      query = Map.empty, has_body = True, json_typed = True, read_fails = False,
      raw_body = replicate 800 97\<rparr>"

text \<open>The two answers of the error-handling middleware of \<open>/api/json\<close>.\<close>

definition invalid_accept_header :: reply where
  "invalid_accept_header =
     Response 400 (JsonBody (JObj [(ascii ''status'', JStr (ascii ''error'')),
                                   (ascii ''text'', JStr (ascii ''invalid accept header''))]))"

definition invalid_json_body :: reply where
  "invalid_json_body =
     Response 400 (JsonBody (JObj [(ascii ''status'', JStr (ascii ''error'')),
                                   (ascii ''text'', JStr (ascii ''invalid json body''))]))"






section \<open>The shape gate of GET /api/stream\<close>

lemma length_ascii [simp]: "length (ascii s) = length s"
  by (simp add: ascii_def)

lemma String_absent: "js_String None = Inr (ascii ''undefined'')"
  by (simp add: js_String_def)

lemma toInt32_in_range: "100 \<le> n \<Longrightarrow> n \<le> 999 \<Longrightarrow> toInt32 n = n"
  by (simp add: toInt32_def)

lemma gate_iff_lengths:
  "(checkQueries i e s k v \<and> checkBaseLength i e \<and> checkSafeLength s k v) \<longleftrightarrow>
   (length i = 21 \<and> length e = 13 \<and> length s = 43 \<and> length k = 43 \<and> length v = 22)"
  by (auto simp: checkQueries_def checkBaseLength_def checkSafeLength_def truthy_str_def)

lemma sendStatus_400: "uncaught (sendStatus (Some 400), tr) = (Response 400 (StatusText 400), tr)"
  by (simp add: uncaught_def sendStatus_def toInt32_def)

text \<open>
  When each of the five conversions \<open>String(req.query.k)\<close> yields a text and one of the
  texts has the wrong length (an absent field reads \<open>undefined\<close>, nine characters), the
  handler answers 400 and calls no collaborator.
\<close>

lemma shape_gate_rejects_texts:
  assumes "js_String (query req ''id'') = Inr i" and "js_String (query req ''exp'') = Inr e"
      and "js_String (query req ''sig'') = Inr s" and "js_String (query req ''sec'') = Inr k"
      and "js_String (query req ''iv'') = Inr v"
      and "length i \<noteq> 21 \<or> length e \<noteq> 13 \<or> length s \<noteq> 43 \<or> length k \<noteq> 43 \<or> length v \<noteq> 22"
  shows "api_stream env req = (Response 400 (StatusText 400), [])"
proof -
  from assms(6) have "\<not> (checkQueries i e s k v \<and> checkBaseLength i e \<and> checkSafeLength s k v)"
    unfolding gate_iff_lengths by auto
  then show ?thesis
    using assms(1-5) by (auto simp add: api_stream_def stream_checked_def sendStatus_400)
qed

text \<open>
  C1. For every request to GET /api/stream in which one of the five query fields is
  absent or does not have its required length, the handler should answer 400 without
  calling \<open>verifyStream\<close>. The code misses a case: for the query \<open>id[toString]=x\<close>
  (an \<open>id\<close> that is no text of 21 characters) \<open>String(req.query.id)\<close> throws a
  TypeError before the \<open>try\<close> block; the exception leaves the handler and the answer is
  not 400. \<open>verifyStream\<close> is not called.
\<close>

theorem shape_gate_shadowed_toString:
  "query shadowed_request ''id'' = Some (QObj [(ascii ''toString'', QStr (ascii ''x''))])
   \<and> js_String (query shadowed_request ''id'') = Inl TypeError
   \<and> api_stream accepting shadowed_request = (Uncaught TypeError, [])
   \<and> reply_status (fst (api_stream accepting shadowed_request)) \<noteq> Some 400"
proof -
  have q: "query shadowed_request ''id'' = Some (QObj [(ascii ''toString'', QStr (ascii ''x''))])"
    by (simp add: shadowed_request_def token_request_def)
  have c: "js_String (query shadowed_request ''id'') = Inl TypeError"
    unfolding q by (simp add: js_String_def)
  have r: "api_stream accepting shadowed_request = (Uncaught TypeError, [])"
    by (simp add: api_stream_def c)
  show ?thesis
    using q c r by (simp add: reply_status_def)
qed

section \<open>Probe, verification and dispatch on GET /api/stream\<close>

lemma past_the_gate:
  assumes "js_String (query req ''id'') = Inr i" and "length i = 21"
      and "js_String (query req ''exp'') = Inr e" and "length e = 13"
      and "js_String (query req ''sig'') = Inr s" and "length s = 43"
      and "js_String (query req ''sec'') = Inr k" and "length k = 43"
      and "js_String (query req ''iv'') = Inr v" and "length v = 22"
  shows "api_stream env req =
           (if truthy (query req ''p'')
            then (Response 200 (JsonBody (JObj [(ascii ''status'', JStr (ascii ''continue''))])), [])
            else catch_destroy (stream_try env i s e k v))"
proof -
  from assms have "checkQueries i e s k v \<and> checkBaseLength i e \<and> checkSafeLength s k v"
    unfolding gate_iff_lengths by simp
  then show ?thesis
    using assms
    by (simp add: api_stream_def stream_checked_def uncaught_def status_json_def toInt32_def)
qed

text \<open>
  C2. A request to GET /api/stream whose five fields pass the shape gate and whose
  probe parameter \<open>p\<close> is truthy is answered 200 with the body \<open>{status: "continue"}\<close>;
  neither \<open>verifyStream\<close> nor \<open>stream\<close> is called.
\<close>

theorem probe_short_circuit:
  assumes "js_String (query req ''id'') = Inr i" and "length i = 21"
      and "js_String (query req ''exp'') = Inr e" and "length e = 13"
      and "js_String (query req ''sig'') = Inr s" and "length s = 43"
      and "js_String (query req ''sec'') = Inr k" and "length k = 43"
      and "js_String (query req ''iv'') = Inr v" and "length v = 22"
      and "truthy (query req ''p'')"
  shows "api_stream env req =
           (Response 200 (JsonBody (JObj [(ascii ''status'', JStr (ascii ''continue''))])), [])
       \<and> Called VerifyStream \<notin> set (snd (api_stream env req))
       \<and> Called Stream \<notin> set (snd (api_stream env req))"
  using past_the_gate [OF assms(1-10), of env] assms(11) by simp

lemma token_request_texts:
  "js_String (query token_request ''id'') = Inr (tok 21)" "length (tok 21) = 21"
  "js_String (query token_request ''exp'') = Inr (tok 13)" "length (tok 13) = 13"
  "js_String (query token_request ''sig'') = Inr (tok 43)" "length (tok 43) = 43"
  "js_String (query token_request ''sec'') = Inr (tok 43)" "length (tok 43) = 43"
  "js_String (query token_request ''iv'') = Inr (tok 22)" "length (tok 22) = 22"
  by (simp_all add: token_request_def token_query_def js_String_def tok_def)

lemma token_request_no_probe: "\<not> truthy (query token_request ''p'')"
  by (simp add: token_request_def token_query_def truthy_def)

lemma probe_request_texts:
  "js_String (query probe_request ''id'') = Inr (tok 21)" "length (tok 21) = 21"
  "js_String (query probe_request ''exp'') = Inr (tok 13)" "length (tok 13) = 13"
  "js_String (query probe_request ''sig'') = Inr (tok 43)" "length (tok 43) = 43"
  "js_String (query probe_request ''sec'') = Inr (tok 43)" "length (tok 43) = 43"
  "js_String (query probe_request ''iv'') = Inr (tok 22)" "length (tok 22) = 22"
  by (simp_all add: probe_request_def token_request_def token_query_def js_String_def tok_def)

lemma probe_request_probe: "truthy (query probe_request ''p'')"
  by (simp add: probe_request_def token_request_def token_query_def truthy_def ascii_def)

theorem probe_short_circuit_witness:
  "truthy (query probe_request ''p'')
   \<and> api_stream rejecting probe_request =
       (Response 200 (JsonBody (JObj [(ascii ''status'', JStr (ascii ''continue''))])), [])"
  using probe_short_circuit [OF probe_request_texts probe_request_probe, of rejecting]
    probe_request_probe
  by simp

text \<open>
  C7, as the specification states it, fails: the answer to a token that
  \<open>verifyStream\<close> rejects with 401 has a body, the status text that
  \<open>res.sendStatus\<close> sends with every code.
\<close>

theorem rejection_body_counterexample:
  "verifyStream rejecting (tok 21) (tok 43) (tok 13) (tok 43) (tok 22) = Inr (Some unauthorized)
   \<and> \<not> has_service (Some unauthorized)
   \<and> status unauthorized = Some 401
   \<and> fst (api_stream rejecting token_request) = Response 401 (StatusText 401)
   \<and> reply_body (fst (api_stream rejecting token_request)) \<noteq> NoBody"
proof -
  have "api_stream rejecting token_request = (Response 401 (StatusText 401), [Called VerifyStream])"
    by (simp add: past_the_gate [OF token_request_texts] token_request_no_probe rejecting_def
          accepting_def unauthorized_def has_service_def stream_try_def catch_destroy_def
          sendStatus_def toInt32_def)
  then show ?thesis
    by (simp add: rejecting_def accepting_def unauthorized_def has_service_def reply_body_def)
qed

text \<open>
  C7, amended. For a request to GET /api/stream that passes the shape gate and is
  not a probe, when \<open>verifyStream\<close> returns an object without a non-empty \<open>service\<close>
  whose \<open>status\<close> is a code from 100 to 999, the response has exactly that status code,
  given to \<open>res.sendStatus\<close> as it is; its only body is the status text that
  \<open>res.sendStatus\<close> derives from the code, and \<open>stream\<close> is not called.
\<close>

theorem verification_failure_forwarded:
  assumes "js_String (query req ''id'') = Inr i" and "length i = 21"
      and "js_String (query req ''exp'') = Inr e" and "length e = 13"
      and "js_String (query req ''sig'') = Inr s" and "length s = 43"
      and "js_String (query req ''sec'') = Inr k" and "length k = 43"
      and "js_String (query req ''iv'') = Inr v" and "length v = 22"
      and "\<not> truthy (query req ''p'')"
      and "verifyStream env i s e k v = Inr (Some info)"
      and "\<not> has_service (Some info)"
      and "status info = Some code"
      and "100 \<le> code" and "code \<le> 999"
  shows "api_stream env req = (Response code (StatusText code), [Called VerifyStream])
       \<and> reply_status (fst (api_stream env req)) = status info
       \<and> Called Stream \<notin> set (snd (api_stream env req))"
  using past_the_gate [OF assms(1-10), of env] assms(11-16)
  by (simp add: stream_try_def catch_destroy_def sendStatus_def reply_status_def toInt32_in_range)

theorem verification_failure_forwarded_witness:
  "\<not> has_service (Some unauthorized)
   \<and> api_stream rejecting token_request = (Response 401 (StatusText 401), [Called VerifyStream])"
proof -
  have v: "verifyStream rejecting (tok 21) (tok 43) (tok 13) (tok 43) (tok 22)
           = Inr (Some unauthorized)"
    by (simp add: rejecting_def accepting_def)
  have s: "\<not> has_service (Some unauthorized)" "status unauthorized = Some 401"
    by (simp_all add: has_service_def unauthorized_def)
  show ?thesis
    using verification_failure_forwarded [OF token_request_texts token_request_no_probe v s] s(1)
    by simp
qed

text \<open>
  A result that carries no status code, or one that as a 32-bit integer lies outside
  100..999, or a \<open>null\<close> result, ends in the \<open>catch\<close> branch: the connection is
  destroyed.
\<close>

lemma failure_without_code_destroys:
  assumes "js_String (query req ''id'') = Inr i" and "length i = 21"
      and "js_String (query req ''exp'') = Inr e" and "length e = 13"
      and "js_String (query req ''sig'') = Inr s" and "length s = 43"
      and "js_String (query req ''sec'') = Inr k" and "length k = 43"
      and "js_String (query req ''iv'') = Inr v" and "length v = 22"
      and "\<not> truthy (query req ''p'')"
      and "verifyStream env i s e k v = Inr r"
      and "r = None \<or> (\<exists>info. r = Some info \<and> \<not> has_service r
             \<and> (status info = None
                 \<or> (\<exists>c. status info = Some c \<and> (toInt32 c < 100 \<or> 999 < toInt32 c))))"
  shows "api_stream env req = (Destroyed, [Called VerifyStream])"
  using past_the_gate [OF assms(1-10), of env] assms(11-13)
  by (auto simp add: stream_try_def catch_destroy_def sendStatus_def has_service_def)

text \<open>When an exception thrown out of a collaborator's call is part of a run of the handler.\<close>

lemma api_stream_cases:
  "(\<exists>x. api_stream env req = (Uncaught x, []))
   \<or> (\<exists>i e s k v. api_stream env req = stream_checked env req i e s k v)"
  by (simp add: api_stream_def split: sum.splits) blast

lemma api_stream_texts:
  assumes "js_String (query req ''id'') = Inr i" and "js_String (query req ''exp'') = Inr e"
      and "js_String (query req ''sig'') = Inr s" and "js_String (query req ''sec'') = Inr k"
      and "js_String (query req ''iv'') = Inr v"
  shows "api_stream env req = stream_checked env req i e s k v"
  using assms by (simp add: api_stream_def)

lemma raised_in_checked_iff:
  "Raised c \<in> set (snd (stream_checked env req i e s k v)) \<longleftrightarrow>
     (checkQueries i e s k v \<and> checkBaseLength i e \<and> checkSafeLength s k v)
     \<and> \<not> truthy (query req ''p'')
     \<and> (case verifyStream env i s e k v of
           Inl x \<Rightarrow> c = VerifyStream
         | Inr r \<Rightarrow> (case r of
                       None \<Rightarrow> False
                     | Some info \<Rightarrow> has_service r \<and> c = Stream \<and> (\<exists>x. stream env info = Inl x)))"
  by (auto simp add: stream_checked_def uncaught_def catch_destroy_def
        stream_try_def sendStatus_def status_json_def
      split: sum.splits option.splits proxying.splits)

lemma raised_in_checked_destroys:
  assumes "Raised c \<in> set (snd (stream_checked env req i e s k v))"
  shows "fst (stream_checked env req i e s k v) = Destroyed"
  using assms
  by (auto simp add: stream_checked_def uncaught_def catch_destroy_def
        stream_try_def sendStatus_def status_json_def
      split: if_splits sum.splits option.splits proxying.splits)

lemma raised_in_stream_iff:
  assumes "js_String (query req ''id'') = Inr i" and "js_String (query req ''exp'') = Inr e"
      and "js_String (query req ''sig'') = Inr s" and "js_String (query req ''sec'') = Inr k"
      and "js_String (query req ''iv'') = Inr v"
  shows "Raised c \<in> set (snd (api_stream env req)) \<longleftrightarrow>
     (checkQueries i e s k v \<and> checkBaseLength i e \<and> checkSafeLength s k v)
     \<and> \<not> truthy (query req ''p'')
     \<and> (case verifyStream env i s e k v of
           Inl x \<Rightarrow> c = VerifyStream
         | Inr r \<Rightarrow> (case r of
                       None \<Rightarrow> False
                     | Some info \<Rightarrow> has_service r \<and> c = Stream \<and> (\<exists>x. stream env info = Inl x)))"
  unfolding api_stream_texts [OF assms] by (rule raised_in_checked_iff)


text \<open>
  C8, as the specification states it, fails: when the proxying that \<open>stream\<close> started
  fails after the call has returned, the handler, which does not wait for it, has
  left its \<open>try\<close> block; the connection is not destroyed by the gateway.
\<close>

theorem late_exception_counterexample:
  "stream stream_fails_later youtube_descriptor = Inr (Fails_later Error)
   \<and> Raised_later Stream \<in> set (snd (api_stream stream_fails_later token_request))
   \<and> fst (api_stream stream_fails_later token_request) = Proxied youtube_descriptor
   \<and> fst (api_stream stream_fails_later token_request) \<noteq> Destroyed"
proof -
  have "api_stream stream_fails_later token_request =
          (Proxied youtube_descriptor, [Called VerifyStream, Called Stream, Raised_later Stream])"
    by (simp add: past_the_gate [OF token_request_texts] token_request_no_probe stream_try_def
          catch_destroy_def stream_fails_later_def accepting_def has_service_def
          youtube_descriptor_def truthy_str_def ascii_def)
  then show ?thesis
    by (simp add: stream_fails_later_def accepting_def)
qed

text \<open>
  C8, amended. Whenever, in answering a request to GET /api/stream, \<open>verifyStream\<close>
  or \<open>stream\<close> throws an exception out of its call, the handler destroys the
  connection: no status code and no body is sent. (A collaborator is only called, and
  so can only throw, for a request that passed the shape gate and is not a probe.)
\<close>

theorem collaborator_exception_destroys:
  assumes "Raised VerifyStream \<in> set (snd (api_stream env req))
         \<or> Raised Stream \<in> set (snd (api_stream env req))"
  shows "fst (api_stream env req) = Destroyed
       \<and> reply_status (fst (api_stream env req)) = None
       \<and> reply_body (fst (api_stream env req)) = NoBody"
proof -
  have "fst (api_stream env req) = Destroyed"
    using assms api_stream_cases [of env req] by (auto dest: raised_in_checked_destroys)
  then show ?thesis by (simp add: reply_status_def reply_body_def)
qed

theorem collaborator_exception_destroys_witness:
  "Raised VerifyStream \<in> set (snd (api_stream verify_throws token_request))
   \<and> fst (api_stream verify_throws token_request) = Destroyed
   \<and> Raised Stream \<in> set (snd (api_stream stream_throws token_request))
   \<and> fst (api_stream stream_throws token_request) = Destroyed"
proof -
  have a: "Raised VerifyStream \<in> set (snd (api_stream verify_throws token_request))"
    by (simp add: past_the_gate [OF token_request_texts] token_request_no_probe stream_try_def
          catch_destroy_def verify_throws_def accepting_def)
  have b: "Raised Stream \<in> set (snd (api_stream stream_throws token_request))"
    by (simp add: past_the_gate [OF token_request_texts] token_request_no_probe stream_try_def
          catch_destroy_def stream_throws_def accepting_def has_service_def youtube_descriptor_def
          truthy_str_def ascii_def)
  show ?thesis
    using a b collaborator_exception_destroys [of verify_throws token_request]
      collaborator_exception_destroys [of stream_throws token_request]
    by simp
qed

section \<open>The internal route GET /api/istream\<close>

text \<open>
  C10, as stated, fails: for a caller that passes the loopback check and the query
  \<open>id[toString]=x\<close>, an \<open>id\<close> that is no text of 21 characters,
  \<open>String(req.query.id)\<close> throws inside the \<open>try\<close> block and the \<open>catch\<close> destroys
  the connection; the answer is not 400.
\<close>

theorem istream_shadowed_counterexample:
  "ip shadowed_loopback_request = Some ''127.0.0.1''
   \<and> endsWith ''127.0.0.1'' ''127.0.0.1''
   \<and> query shadowed_loopback_request ''id'' = Some (QObj [(ascii ''toString'', QStr (ascii ''x''))])
   \<and> js_String (query shadowed_loopback_request ''id'') = Inl TypeError
   \<and> api_istream accepting shadowed_loopback_request = (Destroyed, [])
   \<and> reply_status (fst (api_istream accepting shadowed_loopback_request)) \<noteq> Some 400"
proof -
  have a: "ip shadowed_loopback_request = Some ''127.0.0.1''"
    by (simp add: shadowed_loopback_request_def)
  have b: "endsWith ''127.0.0.1'' ''127.0.0.1''"
    by (simp add: endsWith_def)
  have q: "query shadowed_loopback_request ''id''
           = Some (QObj [(ascii ''toString'', QStr (ascii ''x''))])"
    by (simp add: shadowed_loopback_request_def)
  have c: "js_String (query shadowed_loopback_request ''id'') = Inl TypeError"
    unfolding q by (simp add: js_String_def)
  have r: "api_istream accepting shadowed_loopback_request = (Destroyed, [])"
    by (simp add: api_istream_def istream_try_def a b c catch_destroy_def)
  show ?thesis
    using a b q c r by (simp add: reply_status_def)
qed

text \<open>
  C10, amended. For a request to GET /api/istream from a caller that passes the
  loopback check, when \<open>String(req.query.id)\<close> yields a text (the text \<open>undefined\<close> for
  an absent parameter) whose length is not 21, the handler answers 400; and unless the
  conversion yields a text of length exactly 21, \<open>getInternalStream\<close> is not called.
\<close>

theorem istream_id_length:
  assumes "ip req = Some addr"
      and "endsWith addr ''127.0.0.1''"
  shows "(js_String (query req ''id'') = Inr t \<and> length t \<noteq> 21
            \<longrightarrow> api_istream env req = (Response 400 (StatusText 400), [])
              \<and> reply_status (fst (api_istream env req)) = Some 400)
       \<and> (\<not> (\<exists>u. js_String (query req ''id'') = Inr u \<and> length u = 21)
            \<longrightarrow> Called GetInternalStream \<notin> set (snd (api_istream env req)))"
proof -
  have wrong_length: "api_istream env req = (Response 400 (StatusText 400), [])
                    \<and> reply_status (fst (api_istream env req)) = Some 400"
    if "js_String (query req ''id'') = Inr t \<and> length t \<noteq> 21"
    using that assms
    by (simp add: api_istream_def istream_try_def catch_destroy_def sendStatus_def toInt32_def
          reply_status_def)
  have not_consulted: "Called GetInternalStream \<notin> set (snd (api_istream env req))"
    if "\<not> (\<exists>u. js_String (query req ''id'') = Inr u \<and> length u = 21)"
    using that assms
    by (cases "js_String (query req ''id'')")
       (simp_all add: api_istream_def istream_try_def catch_destroy_def sendStatus_def toInt32_def)
  from wrong_length not_consulted show ?thesis by blast
qed

theorem istream_id_length_witness:
  "endsWith ''::ffff:127.0.0.1'' ''127.0.0.1''
   \<and> js_String (query loopback_request ''id'') = Inr (ascii ''undefined'')
   \<and> api_istream accepting loopback_request = (Response 400 (StatusText 400), [])
   \<and> Called GetInternalStream \<notin> set (snd (api_istream accepting shadowed_loopback_request))"
proof -
  have a: "ip loopback_request = Some ''::ffff:127.0.0.1''"
    by (simp add: loopback_request_def)
  have b: "endsWith ''::ffff:127.0.0.1'' ''127.0.0.1''"
    by (simp add: endsWith_def)
  have c: "js_String (query loopback_request ''id'') = Inr (ascii ''undefined'')"
    by (simp add: loopback_request_def js_String_def)
  have a': "ip shadowed_loopback_request = Some ''127.0.0.1''"
    by (simp add: shadowed_loopback_request_def)
  have b': "endsWith ''127.0.0.1'' ''127.0.0.1''"
    by (simp add: endsWith_def)
  have c': "js_String (query shadowed_loopback_request ''id'') = Inl TypeError"
    by (simp add: shadowed_loopback_request_def js_String_def)
  show ?thesis
    using istream_id_length [OF a b, of "ascii ''undefined''" accepting]
      istream_id_length [OF a' b', of "[]" accepting] b c c'
    by simp
qed

text \<open>
  C4, as the specification states it, fails: the address \<open>2001:db8::127.0.0.1\<close> is
  not the loopback address, yet the handler does not answer 403; it looks the
  identifier up and hands the descriptor to \<open>stream\<close>.
\<close>

theorem istream_suffix_counterexample:
  "ip crafted_request = Some ''2001:db8::127.0.0.1''
   \<and> ''2001:db8::127.0.0.1'' \<noteq> ''127.0.0.1''
   \<and> reply_status (fst (api_istream accepting crafted_request)) \<noteq> Some 403
   \<and> snd (api_istream accepting crafted_request) = [Called GetInternalStream, Called Stream]"
  by (simp add: crafted_request_def token_request_def token_query_def api_istream_def
        istream_try_def catch_destroy_def endsWith_def js_String_def tok_def accepting_def
        reply_status_def Let_def)

text \<open>
  C4, amended. For every request to GET /api/istream whose resolved caller address
  does not end in the characters \<open>127.0.0.1\<close>, the handler answers 403 before the
  \<open>id\<close> parameter is read: whatever the query and whatever the stream registry holds,
  the answer is the same and \<open>getInternalStream\<close> is not called.
\<close>

theorem istream_forbidden:
  assumes "ip req = Some addr"
      and "\<not> endsWith addr ''127.0.0.1''"
  shows "api_istream env req = (Response 403 (StatusText 403), [])
       \<and> api_istream env' (req\<lparr>query := q\<rparr>) = api_istream env req
       \<and> Called GetInternalStream \<notin> set (snd (api_istream env req))"
  using assms
  by (simp add: api_istream_def istream_try_def catch_destroy_def sendStatus_def toInt32_def)

theorem istream_forbidden_witness:
  "\<not> endsWith ''203.0.113.7'' ''127.0.0.1''
   \<and> js_String (query remote_request ''id'') = Inr (tok 21)
   \<and> length (tok 21) = 21
   \<and> getInternalStream accepting (query remote_request ''id'') = Inr (Some youtube_descriptor)
   \<and> api_istream accepting remote_request = (Response 403 (StatusText 403), [])"
proof -
  have a: "ip remote_request = Some ''203.0.113.7''"
    by (simp add: remote_request_def)
  have b: "\<not> endsWith ''203.0.113.7'' ''127.0.0.1''"
    by (simp add: endsWith_def)
  have c: "js_String (query remote_request ''id'') = Inr (tok 21)" "length (tok 21) = 21"
    by (simp_all add: remote_request_def token_request_def token_query_def js_String_def tok_def)
  show ?thesis
    using istream_forbidden [OF a b, of accepting] b c by (simp add: accepting_def)
qed

section \<open>The body-parsing stage of POST /api/json\<close>

lemma status_json_400: "status_json 400 v = Inr (Response 400 (JsonBody v))"
  by (simp add: status_json_def toInt32_def)

text \<open>What the error-handling middleware answers to an error of the body parser.\<close>

lemma json_error_handler_answer:
  "json_error_handler True req =
     Some (Inr (if header_String (headers req ''accept'') \<noteq> ''application/json''
                then invalid_accept_header else invalid_json_body))"
  by (simp add: json_error_handler_def status_json_400 invalid_accept_header_def
        invalid_json_body_def Let_def)

lemma api_json_error:
  assumes "express_json env req = (Inl e, tr)"
  shows "api_json env req =
           (if header_String (headers req ''accept'') \<noteq> ''application/json''
            then invalid_accept_header else invalid_json_body, tr)"
  using assms by (simp add: api_json_def json_error_handler_answer uncaught_def)

text \<open>
  C3, as the specification states it, fails: a request whose Accept header is
  \<open>application/json; charset=utf-8\<close>, with the well-formed JSON body \<open>{}\<close>, is
  rejected with the invalid-accept-header message.
\<close>

theorem accept_charset_counterexample:
  "headers charset_request ''accept'' = Some ''application/json; charset=utf-8''
   \<and> JSON_parse accepting (raw_body charset_request) \<noteq> None
   \<and> api_json accepting charset_request = (invalid_accept_header, [])"
proof -
  have "express_json accepting charset_request = (Inl Error, [])"
    by (simp add: express_json_def verify_def charset_request_def header_String_def)
  then have "api_json accepting charset_request = (invalid_accept_header, [])"
    by (simp add: api_json_error) (simp add: charset_request_def header_String_def)
  then show ?thesis
    by (simp add: charset_request_def accepting_def)
qed

text \<open>
  C3, amended. On POST /api/json the only accepted Accept header is exactly
  \<open>application/json\<close>: with it the \<open>verify\<close> callback lets every well-formed body of at
  most 720 bytes pass. With any other value (\<open>application/json; charset=utf-8\<close> and an
  absent header included) \<open>verify\<close> throws whatever the body is, and every request whose
  body \<open>express.json\<close> reads (it has a body and a JSON content type) is answered 400 with
  the message \<open>invalid accept header\<close>, not the invalid-body message, before any byte
  is parsed.
\<close>

theorem accept_header_exact:
  "(header_String (headers req ''accept'') = ''application/json''
      \<and> length buf \<le> 720 \<and> JSON_parse env buf \<noteq> None
      \<longrightarrow> fst (verify env req buf) = Inr ())
   \<and> (header_String (headers req ''accept'') \<noteq> ''application/json''
      \<longrightarrow> verify env req buf = (Inl Error, []))
   \<and> (header_String (headers req ''accept'') \<noteq> ''application/json''
      \<and> has_body req \<and> json_typed req
      \<longrightarrow> api_json env req = (invalid_accept_header, [])
        \<and> fst (api_json env req) \<noteq> invalid_json_body)"
proof (intro conjI impI)
  assume "header_String (headers req ''accept'') = ''application/json''
            \<and> length buf \<le> 720 \<and> JSON_parse env buf \<noteq> None"
  then show "fst (verify env req buf) = Inr ()"
    by (auto simp add: verify_def)
next
  assume "header_String (headers req ''accept'') \<noteq> ''application/json''"
  then show "verify env req buf = (Inl Error, [])"
    by (simp add: verify_def)
next
  assume a: "header_String (headers req ''accept'') \<noteq> ''application/json''
            \<and> has_body req \<and> json_typed req"
  then have "express_json env req = (Inl Error, [])"
    by (simp add: express_json_def verify_def)
  with a show "api_json env req = (invalid_accept_header, [])"
    by (simp add: api_json_error)
  then show "fst (api_json env req) \<noteq> invalid_json_body"
    by (simp add: invalid_accept_header_def invalid_json_body_def ascii_def)
qed

theorem accept_header_exact_witness:
  "fst (verify accepting json_request (raw_body json_request)) = Inr ()
   \<and> verify accepting charset_request [123, 125] = (Inl Error, [])
   \<and> api_json accepting charset_request = (invalid_accept_header, [])
   \<and> header_String (headers no_accept_request ''accept'') = ''undefined''
   \<and> api_json accepting no_accept_request = (invalid_accept_header, [])"
proof -
  have a: "header_String (headers json_request ''accept'') = ''application/json''"
       "raw_body json_request = [123, 125]"
    by (simp_all add: json_request_def header_String_def)
  have b: "header_String (headers charset_request ''accept'') \<noteq> ''application/json''"
    by (simp add: charset_request_def header_String_def)
  have c: "header_String (headers no_accept_request ''accept'') = ''undefined''"
    by (simp add: no_accept_request_def header_String_def)
  have d: "has_body no_accept_request \<and> json_typed no_accept_request"
          "has_body charset_request \<and> json_typed charset_request"
    by (simp_all add: no_accept_request_def charset_request_def)
  have e: "JSON_parse accepting [123, 125] \<noteq> None"
    by (simp add: accepting_def)
  show ?thesis
    using accept_header_exact [of json_request "[123, 125]" accepting]
      accept_header_exact [of charset_request "[123, 125]" accepting]
      accept_header_exact [of no_accept_request "[]" accepting]
      a b c d e
    by simp
qed

text \<open>
  C6, as the specification states it, fails: 800 bytes sent with an acceptable Accept
  header but as \<open>text/plain\<close> are not read by \<open>express.json\<close>; no error is raised at the
  body-parsing stage, and the route handler answers with the content-type failure
  (here with the text the sample \<open>loc\<close> gives for \<open>ErrorInvalidContentType\<close>), not with
  the invalid-body message.
\<close>

theorem oversized_plain_counterexample:
  "header_String (headers plain_request ''accept'') = ''application/json''
   \<and> length (raw_body plain_request) = 800
   \<and> api_json accepting plain_request =
       (Response 400 (JsonBody (JObj [(ascii ''status'', JStr (ascii ''error'')),
                                      (ascii ''text'', JStr (ascii ''ErrorInvalidContentType''))])),
        [])
   \<and> fst (api_json accepting plain_request) \<noteq> invalid_json_body"
proof -
  have a: "express_json accepting plain_request = (Inr (JObj []), [])"
    by (simp add: express_json_def plain_request_def)
  have b: "post_json accepting plain_request (JObj []) =
             (Response 400 (JsonBody (JObj [(ascii ''status'', JStr (ascii ''error'')),
                                            (ascii ''text'', JStr (ascii ''ErrorInvalidContentType''))])),
              [])"
    by (simp add: post_json_def acceptRegex_test_def fail_def uncaught_def status_json_400
          plain_request_def header_String_def accepting_def Let_def)
  have c: "api_json accepting plain_request =
             (Response 400 (JsonBody (JObj [(ascii ''status'', JStr (ascii ''error'')),
                                            (ascii ''text'', JStr (ascii ''ErrorInvalidContentType''))])),
              [])"
    by (simp add: api_json_def a b)
  have d: "ascii ''ErrorInvalidContentType'' \<noteq> ascii ''invalid json body''"
    by (simp add: ascii_def)
  show ?thesis
    unfolding c using d
    by (simp add: invalid_json_body_def) (simp add: plain_request_def header_String_def)
qed

text \<open>
  C6, amended. For every POST /api/json request with the acceptable Accept header
  whose body \<open>express.json\<close> reads (it has a body and a JSON content type), when the raw
  body exceeds 720 bytes the request is rejected as an invalid-body error, status 400
  with the message \<open>invalid json body\<close>, and the body is never parsed as JSON.
\<close>

theorem oversized_body_rejected:
  assumes "header_String (headers req ''accept'') = ''application/json''"
      and "has_body req" and "json_typed req"
      and "length (raw_body req) > 720"
  shows "api_json env req = (invalid_json_body, [])
       \<and> reply_status (fst (api_json env req)) = Some 400
       \<and> Called JSONparse \<notin> set (snd (api_json env req))
       \<and> Called BodyParse \<notin> set (snd (api_json env req))"
proof -
  from assms have "express_json env req = (Inl Error, [])"
    by (simp add: express_json_def verify_def)
  with assms(1) have "api_json env req = (invalid_json_body, [])"
    by (simp add: api_json_error)
  then show ?thesis
    by (simp add: reply_status_def invalid_json_body_def)
qed

theorem oversized_body_rejected_witness:
  "length (raw_body oversized_request) = 800
   \<and> api_json accepting oversized_request = (invalid_json_body, [])"
proof -
  have a: "header_String (headers oversized_request ''accept'') = ''application/json''"
    by (simp add: oversized_request_def header_String_def)
  have b: "has_body oversized_request" "json_typed oversized_request"
    by (simp_all add: oversized_request_def)
  have c: "length (raw_body oversized_request) = 800"
    by (simp add: oversized_request_def)
  have d: "length (raw_body oversized_request) > 720"
    unfolding c by simp
  show ?thesis
    using oversized_body_rejected [OF a b d, of accepting] c by simp
qed

section \<open>The two rate limiters\<close>














end
